theory Spec2Isabelle
  imports Complex_Main
begin

section \<open>JavaScript values, errors and strings\<close>

text \<open>
  The two chat clients of the repository, \<^verbatim>\<open>LMStudioAPI\<close> (src/lib/lmstudio.ts) and
  \<^verbatim>\<open>OpenRouterAPI\<close> (src/lib/openrouter.ts), are TypeScript classes whose values at run
  time are JavaScript values: what \<^verbatim>\<open>JSON.parse\<close> and \<^verbatim>\<open>response.json()\<close> return has
  the static type \<^verbatim>\<open>any\<close>. A value is therefore modelled as an untyped JavaScript value.
  Numbers are rationals (every finite double is one; only their being zero matters here),
  text is a list of 8-bit characters, an object is the association list of its own
  properties, looked up from the front.
\<close>

datatype js =
    JUndefined
  | JNull
  | JBool bool
  | JNum rat
  | JStr string
  | JArr "js list"
  | JObj "(string \<times> js) list"

text \<open>Whatever a \<^verbatim>\<open>throw\<close>, a rejected promise or a failed built-in raises.\<close>

datatype exn =
    JsError string
  | TypeError
  | SyntaxError
  | TimeoutError
  | NetworkError

text \<open>\<^verbatim>\<open>if (v)\<close>, \<^verbatim>\<open>!v\<close> and \<^verbatim>\<open>v || w\<close> go by the truthiness of \<^verbatim>\<open>v\<close>.\<close>

fun truthy :: "js \<Rightarrow> bool" where
  "truthy JUndefined = False"
| "truthy JNull = False"
| "truthy (JBool b) = b"
| "truthy (JNum q) = (if q = 0 then False else True)"
| "truthy (JStr s) = (if s = [] then False else True)"
| "truthy (JArr xs) = True"
| "truthy (JObj kvs) = True"

definition or_else :: "js \<Rightarrow> js \<Rightarrow> js" where
  "or_else v w = (if truthy v then v else w)"

fun nullish :: "js \<Rightarrow> bool" where
  "nullish JUndefined = True"
| "nullish JNull = True"
| "nullish v = False"

text \<open>
  \<^verbatim>\<open>v.k\<close> on a value that is neither null nor undefined, for the property names the
  clients read (choices, delta, message, content, data, id, name, pricing,
  context_length): only an object can own one of them.
\<close>

fun getProp :: "js \<Rightarrow> string \<Rightarrow> js" where
  "getProp (JObj kvs) k = (case map_of kvs k of Some v \<Rightarrow> v | None \<Rightarrow> JUndefined)"
| "getProp v k = JUndefined"

text \<open>\<^verbatim>\<open>v[0]\<close>: the first element of an array, the first character of a string.\<close>

fun index0 :: "js \<Rightarrow> js" where
  "index0 (JArr xs) = (case xs of [] \<Rightarrow> JUndefined | x # rest \<Rightarrow> x)"
| "index0 (JStr s) = (case s of [] \<Rightarrow> JUndefined | c # rest \<Rightarrow> JStr [c])"
| "index0 (JObj kvs) = (case map_of kvs ''0'' of Some v \<Rightarrow> v | None \<Rightarrow> JUndefined)"
| "index0 v = JUndefined"

text \<open>One link \<^verbatim>\<open>v?.\<close> of an optional chain.\<close>

definition optChain :: "js \<Rightarrow> (js \<Rightarrow> js) \<Rightarrow> js" where
  "optChain v f = (if nullish v then JUndefined else f v)"

text \<open>
  \<^verbatim>\<open>parsed.choices?.[0]?.delta?.content\<close>. The first access is not optional: on
  \<^verbatim>\<open>null\<close> it raises a TypeError.
\<close>

definition deltaContent :: "js \<Rightarrow> exn + js" where
  "deltaContent parsed =
     (if nullish parsed then Inl TypeError
      else Inr (optChain (optChain (optChain (getProp parsed ''choices'') index0)
                  (\<lambda>choice. getProp choice ''delta''))
                  (\<lambda>delta. getProp delta ''content'')))"

text \<open>\<^verbatim>\<open>data.choices?.[0]?.message?.content\<close>.\<close>

definition messageContent :: "js \<Rightarrow> exn + js" where
  "messageContent data =
     (if nullish data then Inl TypeError
      else Inr (optChain (optChain (optChain (getProp data ''choices'') index0)
                  (\<lambda>choice. getProp choice ''message''))
                  (\<lambda>message. getProp message ''content'')))"

definition newline :: char where
  "newline = CHR 0x0A"

definition startsWith :: "string \<Rightarrow> string \<Rightarrow> bool" where
  "startsWith s p = (take (length p) s = p)"

text \<open>The white space \<^verbatim>\<open>String.prototype.trim\<close> removes, among the 8-bit characters.\<close>

definition isWhiteSpace :: "char \<Rightarrow> bool" where
  "isWhiteSpace c = (c \<in> set [CHR 0x09, CHR 0x0A, CHR 0x0B, CHR 0x0C, CHR 0x0D, CHR 0x20, CHR 0xA0])"

definition trim :: "string \<Rightarrow> string" where
  "trim s = rev (dropWhile isWhiteSpace (rev (dropWhile isWhiteSpace s)))"

text \<open>\<^verbatim>\<open>s.split(c)\<close> for a one-character separator; the empty string gives one empty piece.\<close>

fun splitOn :: "char \<Rightarrow> string \<Rightarrow> string list" where
  "splitOn c [] = [[]]"
| "splitOn c (x # xs) =
     (if x = c then [] # splitOn c xs
      else (case splitOn c xs of
              [] \<Rightarrow> [[x]]
            | piece # pieces \<Rightarrow> (x # piece) # pieces))"

fun digitChar :: "nat \<Rightarrow> char" where
  "digitChar n = char_of (48 + n)"

fun showNat :: "nat \<Rightarrow> string" where
  "showNat n = (if n < 10 then [digitChar n] else showNat (n div 10) @ [digitChar (n mod 10)])"

section \<open>The environment: HTTP and the settings store\<close>

record request =
  req_url :: string
  req_method :: string
  req_headers :: "(string \<times> string) list"
  req_body :: "js option"
  req_timeout :: "nat option"

text \<open>
  A response as the clients use it: the status, the text and the JSON value its body
  would give (\<^verbatim>\<open>response.text()\<close>, \<^verbatim>\<open>response.json()\<close>, either may reject), and
  \<^verbatim>\<open>response.body\<close>, which is null or a stream. A stream is what successive
  \<^verbatim>\<open>reader.read()\<close> calls deliver: the chunks, each given as the text
  \<^verbatim>\<open>decoder.decode(value)\<close> makes of it, and then either \<^verbatim>\<open>done\<close> (None) or a rejection.
\<close>

record response =
  status :: nat
  statusText :: string
  textBody :: "exn + string"
  jsonBody :: "exn + js"
  bodyStream :: "(string list \<times> exn option) option"

definition ok :: "response \<Rightarrow> bool" where
  "ok r = (200 \<le> status r \<and> status r \<le> 299)"

datatype role = User | Assistant | System

fun roleName :: "role \<Rightarrow> string" where
  "roleName User = ''user''"
| "roleName Assistant = ''assistant''"
| "roleName System = ''system''"

record message =
  msg_id :: string
  msg_chat_id :: string
  msg_role :: role
  msg_content :: string
  msg_created_at :: string

record options =
  opt_temperature :: "rat option"
  opt_maxTokens :: "rat option"
  opt_stream :: "bool option"

text \<open>What running a generator to its end gives: the fragments in order, the error that
  escaped it if one did, and the requests it passed to \<^verbatim>\<open>fetch\<close>.\<close>

record gen_run =
  yielded :: "js list"
  raised :: "exn option"
  sent :: "request list"

section \<open>The decoding loop shared by both clients\<close>

text \<open>
  The inner \<^verbatim>\<open>try\<close> of the loop, for one payload: parse, read the content, yield it
  when truthy; any error is caught and the line skipped. \<^verbatim>\<open>JSON.parse\<close> is a
  parameter (None when it raises a SyntaxError).
\<close>

definition frameContent :: "(string \<Rightarrow> js option) \<Rightarrow> string \<Rightarrow> js list" where
  "frameContent parse d =
     (case parse d of
        None \<Rightarrow> []
      | Some parsed \<Rightarrow>
          (case deltaContent parsed of
             Inl e \<Rightarrow> []
           | Inr content \<Rightarrow> (if truthy content then [content] else [])))"

text \<open>\<^verbatim>\<open>for (const line of lines)\<close>: the fragments yielded, and whether the
  \<^verbatim>\<open>[DONE]\<close> line made the generator return.\<close>

fun processLines :: "(string \<Rightarrow> js option) \<Rightarrow> string list \<Rightarrow> js list \<times> bool" where
  "processLines parse [] = ([], False)"
| "processLines parse (line # rest) =
     (if startsWith line ''data: '' then
        (if trim (drop 6 line) = ''[DONE]'' then ([], True)
         else apfst ((@) (frameContent parse (trim (drop 6 line)))) (processLines parse rest))
      else processLines parse rest)"

text \<open>\<^verbatim>\<open>while (true)\<close> over the reads: each chunk is split on its own.\<close>

fun readLoop :: "(string \<Rightarrow> js option) \<Rightarrow> string list \<Rightarrow> exn option \<Rightarrow> js list \<times> exn option" where
  "readLoop parse [] ending = ([], ending)"
| "readLoop parse (chunk # later) ending =
     (if snd (processLines parse (splitOn newline chunk))
      then (fst (processLines parse (splitOn newline chunk)), None)
      else apfst ((@) (fst (processLines parse (splitOn newline chunk))))
             (readLoop parse later ending))"

text \<open>The non-streaming branch: \<^verbatim>\<open>content || ''\<close> is yielded.\<close>

definition nonStreaming :: "response \<Rightarrow> js list \<times> exn option" where
  "nonStreaming resp =
     (case jsonBody resp of
        Inl e \<Rightarrow> ([], Some e)
      | Inr data \<Rightarrow>
          (case messageContent data of
             Inl e \<Rightarrow> ([], Some e)
           | Inr content \<Rightarrow> ([or_else content (JStr [])], None)))"

text \<open>\<^verbatim>\<open>if (stream && response.body) ... else ...\<close>\<close>

definition consumeResponse :: "(string \<Rightarrow> js option) \<Rightarrow> bool \<Rightarrow> response \<Rightarrow> js list \<times> exn option" where
  "consumeResponse parse stream resp =
     (case bodyStream resp of
        Some (chunks, ending) \<Rightarrow>
          (if stream then readLoop parse chunks ending else nonStreaming resp)
      | None \<Rightarrow> nonStreaming resp)"

text \<open>The outer \<^verbatim>\<open>catch\<close>: an error of the body becomes one more fragment.\<close>

definition catchYield :: "string \<Rightarrow> js list \<times> exn option \<Rightarrow> js list \<times> exn option" where
  "catchYield apology r =
     (case snd r of
        Some e \<Rightarrow> (fst r @ [JStr apology], None)
      | None \<Rightarrow> r)"

definition conversationHistory :: "message list \<Rightarrow> js" where
  "conversationHistory messages =
     JArr (map (\<lambda>msg. JObj [(''role'', JStr (roleName (msg_role msg))),
                              (''content'', JStr (msg_content msg))]) messages)"

definition optStream :: "options \<Rightarrow> bool" where
  "optStream opts = (case opt_stream opts of None \<Rightarrow> True | Some s \<Rightarrow> s)"

definition completionBody :: "message list \<Rightarrow> string \<Rightarrow> options \<Rightarrow> js" where
  "completionBody messages model opts =
     JObj [(''model'', JStr model),
           (''messages'', conversationHistory messages),
           (''temperature'', JNum (case opt_temperature opts of None \<Rightarrow> 7 / 10 | Some t \<Rightarrow> t)),
           (''max_tokens'', JNum (case opt_maxTokens opts of None \<Rightarrow> 2048 | Some m \<Rightarrow> m)),
           (''stream'', JBool (optStream opts))]"

text \<open>\<^verbatim>\<open>const result = await generator.next(); ... result.value\<close>: the first fragment,
  undefined when the generator ends without one, the error when it raises before one.\<close>

definition nextValue :: "gen_run \<Rightarrow> exn + js" where
  "nextValue run =
     (case yielded run of
        v # rest \<Rightarrow> Inr v
      | [] \<Rightarrow> (case raised run of Some e \<Rightarrow> Inl e | None \<Rightarrow> Inr JUndefined))"

definition noResponse :: string where
  "noResponse = ''No response received''"

text \<open>\<^verbatim>\<open>return result.value || 'No response received'\<close>\<close>

definition simpleResult :: "gen_run \<Rightarrow> exn + js" where
  "simpleResult run =
     (case nextValue run of
        Inl e \<Rightarrow> Inl e
      | Inr v \<Rightarrow> Inr (or_else v (JStr noResponse)))"

section \<open>The local client (LMStudioAPI)\<close>

record lmstudio =
  lm_baseUrl :: string

definition lm_probe :: "lmstudio \<Rightarrow> request" where
  "lm_probe c =
     \<lparr>req_url = lm_baseUrl c @ ''/v1/models'', req_method = ''GET'', req_headers = [],
      req_body = None, req_timeout = Some 5000\<rparr>"

definition isAvailable :: "(request \<Rightarrow> exn + response) \<Rightarrow> lmstudio \<Rightarrow> exn + bool" where
  "isAvailable fetch c =
     (case (case fetch (lm_probe c) of Inl e \<Rightarrow> Inl e | Inr resp \<Rightarrow> Inr (ok resp)) of
        Inl e \<Rightarrow> Inr False
      | Inr b \<Rightarrow> Inr b)"

definition lm_apology :: string where
  "lm_apology = ''Sorry, I encountered an error while processing your request.''"

definition lm_request :: "lmstudio \<Rightarrow> message list \<Rightarrow> string \<Rightarrow> options \<Rightarrow> request" where
  "lm_request c messages model opts =
     \<lparr>req_url = lm_baseUrl c @ ''/v1/chat/completions'', req_method = ''POST'',
      req_headers = [(''Content-Type'', ''application/json'')],
      req_body = Some (completionBody messages model opts), req_timeout = None\<rparr>"

definition lm_try :: "(string \<Rightarrow> js option) \<Rightarrow> (request \<Rightarrow> exn + response) \<Rightarrow> lmstudio \<Rightarrow>
    message list \<Rightarrow> string \<Rightarrow> options \<Rightarrow> js list \<times> exn option" where
  "lm_try parse fetch c messages model opts =
     (case fetch (lm_request c messages model opts) of
        Inl e \<Rightarrow> ([], Some e)
      | Inr resp \<Rightarrow>
          (if ok resp then consumeResponse parse (optStream opts) resp
           else ([], Some (JsError (''LMStudio API error: '' @ statusText resp)))))"

definition lm_sendMessage :: "(string \<Rightarrow> js option) \<Rightarrow> (request \<Rightarrow> exn + response) \<Rightarrow> lmstudio \<Rightarrow>
    message list \<Rightarrow> string \<Rightarrow> options \<Rightarrow> gen_run" where
  "lm_sendMessage parse fetch c messages model opts =
     \<lparr>yielded = fst (catchYield lm_apology (lm_try parse fetch c messages model opts)),
      raised = snd (catchYield lm_apology (lm_try parse fetch c messages model opts)),
      sent = [lm_request c messages model opts]\<rparr>"

definition lm_getSimpleResponse :: "(string \<Rightarrow> js option) \<Rightarrow> (request \<Rightarrow> exn + response) \<Rightarrow>
    lmstudio \<Rightarrow> message list \<Rightarrow> string \<Rightarrow> exn + js" where
  "lm_getSimpleResponse parse fetch c messages model =
     simpleResult (lm_sendMessage parse fetch c messages model
       \<lparr>opt_temperature = None, opt_maxTokens = None, opt_stream = Some False\<rparr>)"

section \<open>The cloud client (OpenRouterAPI)\<close>

record openrouter =
  or_baseUrl :: string
  or_apiKey :: string

definition isConfigured :: "openrouter \<Rightarrow> bool" where
  "isConfigured c = (if or_apiKey c = [] then False else True)"

text \<open>
  \<^verbatim>\<open>if (!this.apiKey) { try { this.apiKey = await getOpenRouterApiKey(); } catch ... }\<close>
  The settings store is asked only when no key is held; what it answers is a parameter.
\<close>

definition resolveKey :: "(exn + string) \<Rightarrow> openrouter \<Rightarrow> openrouter" where
  "resolveKey fetchKey c =
     (if or_apiKey c = [] then
        (case fetchKey of Inl e \<Rightarrow> c | Inr k \<Rightarrow> c\<lparr>or_apiKey := k\<rparr>)
      else c)"

definition or_noKey :: string where
  "or_noKey = ''OpenRouter API key not configured. Please set your API key in the settings.''"

definition or_apology :: string where
  "or_apology = ''Sorry, I encountered an error while processing your request. Please check your OpenRouter API key and try again.''"

definition or_request :: "string \<Rightarrow> openrouter \<Rightarrow> message list \<Rightarrow> string \<Rightarrow> options \<Rightarrow> request" where
  "or_request origin c messages model opts =
     \<lparr>req_url = or_baseUrl c @ ''/chat/completions'', req_method = ''POST'',
      req_headers = [(''Content-Type'', ''application/json''),
                     (''Authorization'', ''Bearer '' @ or_apiKey c),
                     (''HTTP-Referer'', origin),
                     (''X-Title'', ''ZChat'')],
      req_body = Some (completionBody messages model opts), req_timeout = None\<rparr>"

definition or_try :: "(string \<Rightarrow> js option) \<Rightarrow> (request \<Rightarrow> exn + response) \<Rightarrow> string \<Rightarrow>
    openrouter \<Rightarrow> message list \<Rightarrow> string \<Rightarrow> options \<Rightarrow> js list \<times> exn option" where
  "or_try parse fetch origin c messages model opts =
     (case fetch (or_request origin c messages model opts) of
        Inl e \<Rightarrow> ([], Some e)
      | Inr resp \<Rightarrow>
          (if ok resp then consumeResponse parse (optStream opts) resp
           else (case textBody resp of
                   Inl e \<Rightarrow> ([], Some e)
                 | Inr errorText \<Rightarrow>
                     ([], Some (JsError (''OpenRouter API error: '' @ statusText resp
                                          @ '' - '' @ errorText))))))"

definition or_sendMessage :: "(string \<Rightarrow> js option) \<Rightarrow> (request \<Rightarrow> exn + response) \<Rightarrow>
    (exn + string) \<Rightarrow> string \<Rightarrow> openrouter \<Rightarrow> message list \<Rightarrow> string \<Rightarrow> options \<Rightarrow>
    openrouter \<times> gen_run" where
  "or_sendMessage parse fetch fetchKey origin c messages model opts =
     (if isConfigured (resolveKey fetchKey c) then
        (resolveKey fetchKey c,
         \<lparr>yielded = fst (catchYield or_apology
                      (or_try parse fetch origin (resolveKey fetchKey c) messages model opts)),
          raised = snd (catchYield or_apology
                      (or_try parse fetch origin (resolveKey fetchKey c) messages model opts)),
          sent = [or_request origin (resolveKey fetchKey c) messages model opts]\<rparr>)
      else
        (resolveKey fetchKey c, \<lparr>yielded = [JStr or_noKey], raised = None, sent = []\<rparr>))"

definition or_getSimpleResponse :: "(string \<Rightarrow> js option) \<Rightarrow> (request \<Rightarrow> exn + response) \<Rightarrow>
    (exn + string) \<Rightarrow> string \<Rightarrow> openrouter \<Rightarrow> message list \<Rightarrow> string \<Rightarrow> openrouter \<times> (exn + js)" where
  "or_getSimpleResponse parse fetch fetchKey origin c messages model =
     apsnd simpleResult (or_sendMessage parse fetch fetchKey origin c messages model
       \<lparr>opt_temperature = None, opt_maxTokens = None, opt_stream = Some False\<rparr>)"

definition modelsRequest :: "openrouter \<Rightarrow> request" where
  "modelsRequest c =
     \<lparr>req_url = or_baseUrl c @ ''/models'', req_method = ''GET'',
      req_headers = [(''Authorization'', ''Bearer '' @ or_apiKey c)],
      req_body = None, req_timeout = None\<rparr>"

definition modelEntry :: "js \<Rightarrow> exn + js" where
  "modelEntry model =
     (if nullish model then Inl TypeError
      else Inr (JObj [(''id'', getProp model ''id''),
                      (''name'', or_else (getProp model ''name'') (getProp model ''id'')),
                      (''pricing'', getProp model ''pricing''),
                      (''context_length'', getProp model ''context_length'')]))"

fun mapEntries :: "js list \<Rightarrow> exn + js list" where
  "mapEntries [] = Inr []"
| "mapEntries (m # ms) =
     (case modelEntry m of
        Inl e \<Rightarrow> Inl e
      | Inr x \<Rightarrow> (case mapEntries ms of Inl e \<Rightarrow> Inl e | Inr xs \<Rightarrow> Inr (x # xs)))"

text \<open>\<^verbatim>\<open>data.data?.map(...) || []\<close>: only an array has \<^verbatim>\<open>map\<close>.\<close>

definition catalogOf :: "js \<Rightarrow> exn + js list" where
  "catalogOf data =
     (if nullish data then Inl TypeError
      else if nullish (getProp data ''data'') then Inr []
      else (case getProp data ''data'' of
              JArr ms \<Rightarrow> mapEntries ms
            | other \<Rightarrow> Inl TypeError))"

definition or_getModels :: "(request \<Rightarrow> exn + response) \<Rightarrow> (exn + string) \<Rightarrow> openrouter \<Rightarrow>
    openrouter \<times> request list \<times> js list" where
  "or_getModels fetch fetchKey c =
     (if isConfigured (resolveKey fetchKey c) then
        (resolveKey fetchKey c, [modelsRequest (resolveKey fetchKey c)],
         (case (case fetch (modelsRequest (resolveKey fetchKey c)) of
                  Inl e \<Rightarrow> Inl e
                | Inr resp \<Rightarrow>
                    (if ok resp then
                       (case jsonBody resp of Inl e \<Rightarrow> Inl e | Inr data \<Rightarrow> catalogOf data)
                     else Inl (JsError (''HTTP error! status: '' @ showNat (status resp))))) of
            Inl e \<Rightarrow> []
          | Inr ms \<Rightarrow> ms))
      else (resolveKey fetchKey c, [], []))"

definition usageRequest :: "openrouter \<Rightarrow> request" where
  "usageRequest c =
     \<lparr>req_url = or_baseUrl c @ ''/auth/key'', req_method = ''GET'',
      req_headers = [(''Authorization'', ''Bearer '' @ or_apiKey c)],
      req_body = None, req_timeout = None\<rparr>"

definition or_getUsage :: "(request \<Rightarrow> exn + response) \<Rightarrow> (exn + string) \<Rightarrow> openrouter \<Rightarrow>
    openrouter \<times> request list \<times> js" where
  "or_getUsage fetch fetchKey c =
     (if isConfigured (resolveKey fetchKey c) then
        (resolveKey fetchKey c, [usageRequest (resolveKey fetchKey c)],
         (case fetch (usageRequest (resolveKey fetchKey c)) of
            Inl e \<Rightarrow> JNull
          | Inr resp \<Rightarrow>
              (if ok resp then (case jsonBody resp of Inl e \<Rightarrow> JNull | Inr v \<Rightarrow> v)
               else JNull)))
      else (resolveKey fetchKey c, [], JNull))"

section \<open>Either client, and the streams the properties speak of\<close>

text \<open>
  The chat page picks one of the two clients by the provider of the chat. The cloud
  client's settings store answers \<open>fetchKey\<close>, its page has the origin \<open>origin\<close>.
\<close>

datatype client = Local lmstudio | Cloud openrouter

definition streamCompletion :: "(string \<Rightarrow> js option) \<Rightarrow> (request \<Rightarrow> exn + response) \<Rightarrow>
    (exn + string) \<Rightarrow> string \<Rightarrow> client \<Rightarrow> message list \<Rightarrow> string \<Rightarrow> options \<Rightarrow> gen_run" where
  "streamCompletion parse fetch fetchKey origin cl messages model opts =
     (case cl of
        Local c \<Rightarrow> lm_sendMessage parse fetch c messages model opts
      | Cloud c \<Rightarrow> snd (or_sendMessage parse fetch fetchKey origin c messages model opts))"

definition getSingleResponse :: "(string \<Rightarrow> js option) \<Rightarrow> (request \<Rightarrow> exn + response) \<Rightarrow>
    (exn + string) \<Rightarrow> string \<Rightarrow> client \<Rightarrow> message list \<Rightarrow> string \<Rightarrow> exn + js" where
  "getSingleResponse parse fetch fetchKey origin cl messages model =
     (case cl of
        Local c \<Rightarrow> lm_getSimpleResponse parse fetch c messages model
      | Cloud c \<Rightarrow> snd (or_getSimpleResponse parse fetch fetchKey origin c messages model))"

text \<open>The chat-completion request of a client, and whether the client can send it.\<close>

definition completionRequest :: "(exn + string) \<Rightarrow> string \<Rightarrow> client \<Rightarrow> message list \<Rightarrow>
    string \<Rightarrow> options \<Rightarrow> request" where
  "completionRequest fetchKey origin cl messages model opts =
     (case cl of
        Local c \<Rightarrow> lm_request c messages model opts
      | Cloud c \<Rightarrow> or_request origin (resolveKey fetchKey c) messages model opts)"

definition ready :: "(exn + string) \<Rightarrow> client \<Rightarrow> bool" where
  "ready fetchKey cl =
     (case cl of Local c \<Rightarrow> True | Cloud c \<Rightarrow> isConfigured (resolveKey fetchKey c))"

definition apologyOf :: "client \<Rightarrow> string" where
  "apologyOf cl = (case cl of Local c \<Rightarrow> lm_apology | Cloud c \<Rightarrow> or_apology)"

text \<open>The request is answered with a success status.\<close>

definition answers :: "(request \<Rightarrow> exn + response) \<Rightarrow> request \<Rightarrow> response \<Rightarrow> bool" where
  "answers fetch req resp = (fetch req = Inr resp \<and> ok resp)"

text \<open>A line is the sentinel when the loop returns at it.\<close>

definition isDoneLine :: "string \<Rightarrow> bool" where
  "isDoneLine line = (startsWith line ''data: '' \<and> trim (drop 6 line) = ''[DONE]'')"

definition hasDone :: "string \<Rightarrow> bool" where
  "hasDone chunk = list_ex isDoneLine (splitOn newline chunk)"

text \<open>What one line of a chunk contributes when it is not the sentinel.\<close>

definition lineFragments :: "(string \<Rightarrow> js option) \<Rightarrow> string \<Rightarrow> js list" where
  "lineFragments parse line =
     (if startsWith line ''data: '' then frameContent parse (trim (drop 6 line)) else [])"

definition chunkFragments :: "(string \<Rightarrow> js option) \<Rightarrow> string \<Rightarrow> js list" where
  "chunkFragments parse chunk = concat (map (lineFragments parse) (splitOn newline chunk))"

text \<open>A chunk that holds whole frames: each payload on its own \<^verbatim>\<open>data: \<close> line.\<close>

definition frameLine :: "string \<Rightarrow> string" where
  "frameLine p = ''data: '' @ p"

definition frameChunk :: "string list \<Rightarrow> string" where
  "frameChunk payloads = concat (map (\<lambda>p. frameLine p @ [newline]) payloads)"

definition doneFrame :: string where
  "doneFrame = frameLine ''[DONE]'' @ [newline]"

text \<open>
  A payload is a valid frame with text \<open>t\<close> when it is one line, is not the sentinel, and
  parses to a value whose \<^verbatim>\<open>choices[0].delta.content\<close> is the string \<open>t\<close>. A malformed
  frame is one line, not the sentinel, that \<^verbatim>\<open>JSON.parse\<close> rejects.
\<close>

definition validFrame :: "(string \<Rightarrow> js option) \<Rightarrow> string \<Rightarrow> string \<Rightarrow> bool" where
  "validFrame parse p t =
     (newline \<notin> set p \<and> trim p \<noteq> ''[DONE]'' \<and>
      (case parse (trim p) of Some j \<Rightarrow> deltaContent j = Inr (JStr t) | None \<Rightarrow> False))"

definition malformedFrame :: "(string \<Rightarrow> js option) \<Rightarrow> string \<Rightarrow> bool" where
  "malformedFrame parse p =
     (newline \<notin> set p \<and> trim p \<noteq> ''[DONE]'' \<and> parse (trim p) = None)"

text \<open>A frame of a mixed stream: its payload, and its text when it is valid.\<close>

definition taggedFrame :: "(string \<Rightarrow> js option) \<Rightarrow> string \<times> string option \<Rightarrow> bool" where
  "taggedFrame parse f =
     (case snd f of Some t \<Rightarrow> validFrame parse (fst f) t | None \<Rightarrow> malformedFrame parse (fst f))"

definition texts :: "string list \<Rightarrow> js list" where
  "texts ts = map JStr (filter (\<lambda>t. t \<noteq> []) ts)"

text \<open>The text of a fragment, to join fragments into the reply.\<close>

fun textOf :: "js \<Rightarrow> string" where
  "textOf (JStr s) = s"
| "textOf v = []"

text \<open>The content a frame payload decodes to, when it decodes.\<close>

definition frameValue :: "(string \<Rightarrow> js option) \<Rightarrow> string \<Rightarrow> js option" where
  "frameValue parse p =
     (case parse (trim p) of
        None \<Rightarrow> None
      | Some j \<Rightarrow> (case deltaContent j of Inl e \<Rightarrow> None | Inr content \<Rightarrow> Some content))"

text \<open>
  The wire format gives the content of a frame as a text, as null, or not at all. A line
  keeps to it when it is no frame, does not decode, or decodes to such a content; a chunk
  keeps to it when each of its lines does.
\<close>

fun wireContent :: "js \<Rightarrow> bool" where
  "wireContent JUndefined = True"
| "wireContent JNull = True"
| "wireContent (JStr s) = True"
| "wireContent v = False"

definition wireLine :: "(string \<Rightarrow> js option) \<Rightarrow> string \<Rightarrow> bool" where
  "wireLine parse line =
     (if startsWith line ''data: '' then
        (case frameValue parse (drop 6 line) of None \<Rightarrow> True | Some content \<Rightarrow> wireContent content)
      else True)"

definition wireChunk :: "(string \<Rightarrow> js option) \<Rightarrow> string \<Rightarrow> bool" where
  "wireChunk parse chunk = list_all (wireLine parse) (splitOn newline chunk)"

fun nonEmptyString :: "js \<Rightarrow> bool" where
  "nonEmptyString (JStr s) = (if s = [] then False else True)"
| "nonEmptyString v = False"

section \<open>Concrete environments\<close>

text \<open>
  \<^verbatim>\<open>JSON.parse\<close> on the payloads used below; every other string is taken as not JSON,
  which is right for each string the examples pass to it.
\<close>

definition deltaFrame :: "js \<Rightarrow> js" where
  "deltaFrame content = JObj [(''choices'', JArr [JObj [(''delta'', JObj [(''content'', content)])]])]"

definition messageReply :: "js \<Rightarrow> js" where
  "messageReply content = JObj [(''choices'', JArr [JObj [(''message'', JObj [(''content'', content)])]])]"

definition demoParse :: "string \<Rightarrow> js option" where
  \<open>demoParse s =
     (if s = ''{"choices":[{"delta":{"content":"Hi"}}]}'' then Some (deltaFrame (JStr ''Hi''))
      else if s = ''{"choices":[{"delta":{"content":" there"}}]}'' then Some (deltaFrame (JStr '' there''))
      else if s = ''{"choices":[{"delta":{"content":""}}]}'' then Some (deltaFrame (JStr []))
      else if s = ''{"choices":[{"delta":{"content":null}}]}'' then Some (deltaFrame JNull)
      else None)\<close>

definition always :: "response \<Rightarrow> request \<Rightarrow> exn + response" where
  "always resp req = Inr resp"

definition failing :: "exn \<Rightarrow> request \<Rightarrow> exn + response" where
  "failing e req = Inl e"

definition streamed :: "string list \<Rightarrow> exn option \<Rightarrow> response" where
  "streamed chunks ending =
     \<lparr>status = 200, statusText = ''OK'', textBody = Inr (concat chunks),
      jsonBody = Inl SyntaxError, bodyStream = Some (chunks, ending)\<rparr>"

definition replied :: "string \<Rightarrow> js \<Rightarrow> response" where
  "replied text data =
     \<lparr>status = 200, statusText = ''OK'', textBody = Inr text,
      jsonBody = Inr data, bodyStream = Some ([text], None)\<rparr>"

definition unauthorized :: response where
  \<open>unauthorized =
     \<lparr>status = 401, statusText = ''Unauthorized'', textBody = Inr ''{"error":"No auth"}'',
      jsonBody = Inr (JObj [(''error'', JStr ''No auth'')]),
      bodyStream = Some ([''{"error":"No auth"}''], None)\<rparr>\<close>

definition demoLocal :: lmstudio where
  "demoLocal = \<lparr>lm_baseUrl = ''http://localhost:1234''\<rparr>"

definition demoCloud :: openrouter where
  "demoCloud = \<lparr>or_baseUrl = ''https://openrouter.ai/api/v1'', or_apiKey = ''sk-test''\<rparr>"

definition keylessCloud :: openrouter where
  "keylessCloud = \<lparr>or_baseUrl = ''https://openrouter.ai/api/v1'', or_apiKey = []\<rparr>"

definition hello :: "message list" where
  "hello = [\<lparr>msg_id = ''m1'', msg_chat_id = ''c1'', msg_role = User, msg_content = ''Hello'',
             msg_created_at = ''2025-01-01T00:00:00Z''\<rparr>]"

definition defaults :: options where
  "defaults = \<lparr>opt_temperature = None, opt_maxTokens = None, opt_stream = None\<rparr>"

definition unstreamed :: options where
  "unstreamed = \<lparr>opt_temperature = None, opt_maxTokens = None, opt_stream = Some False\<rparr>"

definition hiFrame :: string where
  \<open>hiFrame = ''{"choices":[{"delta":{"content":"Hi"}}]}''\<close>

definition thereFrame :: string where
  \<open>thereFrame = ''{"choices":[{"delta":{"content":" there"}}]}''\<close>

definition emptyFrame :: string where
  \<open>emptyFrame = ''{"choices":[{"delta":{"content":""}}]}''\<close>

definition brokenFrame :: string where
  \<open>brokenFrame = ''{"choices":[{"delta":''\<close>

text \<open>The frame \<open>hiFrame\<close> cut in two by the network.\<close>

definition hiHead :: string where
  \<open>hiHead = ''data: {"choices":[{"delta":{"con''\<close>

definition hiTail :: string where
  \<open>hiTail = ''tent":"Hi"}}]}'' @ [newline]\<close>

section \<open>Lemmas on splitting and on the decoding loop\<close>

lemma splitOn_line: "c \<notin> set l \<Longrightarrow> splitOn c (l @ c # r) = l # splitOn c r"
  by (induction l) auto

lemma frameLine_startsWith: "startsWith (frameLine p) ''data: ''"
  by (simp add: startsWith_def frameLine_def)

lemma frameLine_payload: "drop 6 (frameLine p) = p"
  by (simp add: frameLine_def)

lemma frameLine_newline: "newline \<notin> set p \<Longrightarrow> newline \<notin> set (frameLine p)"
  by (simp add: frameLine_def newline_def)

lemma splitOn_frames:
  "\<forall>p\<in>set ps. newline \<notin> set p \<Longrightarrow>
   splitOn newline (frameChunk ps @ r) = map frameLine ps @ splitOn newline r"
proof (induction ps)
  case Nil
  then show ?case by (simp add: frameChunk_def)
next
  case (Cons p ps)
  have nl: "newline \<notin> set (frameLine p)"
    using Cons.prems by (simp add: frameLine_newline)
  have "frameChunk (p # ps) @ r = frameLine p @ newline # (frameChunk ps @ r)"
    by (simp add: frameChunk_def)
  then have "splitOn newline (frameChunk (p # ps) @ r)
      = frameLine p # splitOn newline (frameChunk ps @ r)"
    using splitOn_line [OF nl] by simp
  then show ?case using Cons by simp
qed

lemma processLines_done: "snd (processLines parse ls) = list_ex isDoneLine ls"
  by (induction ls) (auto simp: isDoneLine_def)

lemma processLines_fragments:
  "\<not> list_ex isDoneLine ls \<Longrightarrow> fst (processLines parse ls) = concat (map (lineFragments parse) ls)"
  by (induction ls) (auto simp: isDoneLine_def lineFragments_def)

lemma processLines_append:
  "processLines parse (xs @ ys) =
     (if snd (processLines parse xs) then processLines parse xs
      else apfst ((@) (fst (processLines parse xs))) (processLines parse ys))"
  by (induction xs) (auto simp: apfst_def map_prod_def split: prod.splits)

lemma chunk_no_done:
  "\<not> hasDone chunk \<Longrightarrow>
   processLines parse (splitOn newline chunk) = (chunkFragments parse chunk, False)"
  using processLines_done [of parse "splitOn newline chunk"]
        processLines_fragments [of "splitOn newline chunk" parse]
  by (simp add: hasDone_def chunkFragments_def prod_eq_iff)

lemma readLoop_no_done:
  "\<forall>chunk\<in>set chunks. \<not> hasDone chunk \<Longrightarrow>
   readLoop parse (chunks @ rest) ending =
     apfst ((@) (concat (map (chunkFragments parse) chunks))) (readLoop parse rest ending)"
  by (induction chunks) (auto simp: chunk_no_done apfst_def map_prod_def split: prod.splits)

lemma readLoop_done:
  "hasDone chunk \<Longrightarrow>
   readLoop parse (chunk # rest) ending = (fst (processLines parse (splitOn newline chunk)), None)"
  using processLines_done [of parse "splitOn newline chunk"] by (simp add: hasDone_def)

lemma frame_fragments:
  "taggedFrame parse f \<Longrightarrow>
   lineFragments parse (frameLine (fst f)) = texts (case snd f of Some t \<Rightarrow> [t] | None \<Rightarrow> [])
   \<and> \<not> isDoneLine (frameLine (fst f))"
  by (cases f) (auto simp: taggedFrame_def validFrame_def malformedFrame_def lineFragments_def
      frameContent_def isDoneLine_def texts_def frameLine_startsWith frameLine_payload
      split: option.splits)

lemma frames_lines:
  "\<forall>f\<in>set fs. taggedFrame parse f \<Longrightarrow>
   concat (map (lineFragments parse) (map frameLine (map fst fs)))
     = texts (List.map_filter snd fs)
   \<and> \<not> list_ex isDoneLine (map frameLine (map fst fs))"
proof (induction fs)
  case Nil
  then show ?case by (simp add: texts_def)
next
  case (Cons f fs)
  then have f: "taggedFrame parse f" and rest: "\<forall>f\<in>set fs. taggedFrame parse f" by simp_all
  show ?case
    using frame_fragments [OF f] Cons.IH [OF rest]
    by (cases "snd f") (simp_all add: texts_def)
qed

lemma frames_newline_free:
  "\<forall>f\<in>set fs. taggedFrame parse f \<Longrightarrow> \<forall>p\<in>set (map fst fs). newline \<notin> set p"
  by (auto simp: taggedFrame_def validFrame_def malformedFrame_def split: option.splits)

lemma frameChunk_lines:
  assumes "\<forall>f\<in>set fs. taggedFrame parse f"
  shows "splitOn newline (frameChunk (map fst fs) @ r)
           = map frameLine (map fst fs) @ splitOn newline r"
  using splitOn_frames [OF frames_newline_free [OF assms]] .

lemma not_done_empty: "\<not> isDoneLine []" "lineFragments parse [] = []"
  by (simp_all add: isDoneLine_def lineFragments_def startsWith_def)

lemma frameChunk_whole:
  assumes "\<forall>f\<in>set fs. taggedFrame parse f"
  shows "\<not> hasDone (frameChunk (map fst fs))"
    and "chunkFragments parse (frameChunk (map fst fs)) = texts (List.map_filter snd fs)"
  using frameChunk_lines [OF assms, of "[]"] frames_lines [OF assms]
  by (simp_all add: hasDone_def chunkFragments_def not_done_empty)

lemma doneLine_is_done: "isDoneLine (frameLine ''[DONE]'')"
  by (simp add: isDoneLine_def frameLine_startsWith frameLine_payload trim_def isWhiteSpace_def)

lemma frameChunk_done:
  assumes "\<forall>f\<in>set fs. taggedFrame parse f"
  shows "hasDone (frameChunk (map fst fs) @ doneFrame @ junk)"
    and "fst (processLines parse (splitOn newline (frameChunk (map fst fs) @ doneFrame @ junk)))
           = texts (List.map_filter snd fs)"
proof -
  have nl: "newline \<notin> set (frameLine ''[DONE]'')" by (simp add: newline_def frameLine_def)
  have lines: "splitOn newline (frameChunk (map fst fs) @ doneFrame @ junk)
      = map frameLine (map fst fs) @ (frameLine ''[DONE]'' # splitOn newline junk)"
    using frameChunk_lines [OF assms, of "doneFrame @ junk"] splitOn_line [OF nl, of junk]
    by (simp add: doneFrame_def)
  show "hasDone (frameChunk (map fst fs) @ doneFrame @ junk)"
    unfolding hasDone_def lines using doneLine_is_done by simp
  have d: "processLines parse (frameLine ''[DONE]'' # splitOn newline junk) = ([], True)"
    using doneLine_is_done by (simp add: isDoneLine_def)
  have nd: "\<not> snd (processLines parse (map frameLine (map fst fs)))"
    using frames_lines [OF assms] by (simp add: processLines_done)
  have fr: "fst (processLines parse (map frameLine (map fst fs))) = texts (List.map_filter snd fs)"
    using frames_lines [OF assms] processLines_fragments [of "map frameLine (map fst fs)" parse]
    by simp
  show "fst (processLines parse (splitOn newline (frameChunk (map fst fs) @ doneFrame @ junk)))
           = texts (List.map_filter snd fs)"
    unfolding lines processLines_append using nd d fr by simp
qed

section \<open>Lemmas on the two clients\<close>

lemma catchYield_simps:
  "catchYield a (ys, Some e) = (ys @ [JStr a], None)"
  "catchYield a (ys, None) = (ys, None)"
  by (simp_all add: catchYield_def)

lemma streamCompletion_answered:
  assumes "ready fetchKey cl"
    and "answers fetch (completionRequest fetchKey origin cl messages model opts) resp"
  shows "streamCompletion parse fetch fetchKey origin cl messages model opts =
     \<lparr>yielded = fst (catchYield (apologyOf cl) (consumeResponse parse (optStream opts) resp)),
      raised = snd (catchYield (apologyOf cl) (consumeResponse parse (optStream opts) resp)),
      sent = [completionRequest fetchKey origin cl messages model opts]\<rparr>"
  using assms
  by (cases cl)
     (simp_all add: streamCompletion_def ready_def answers_def completionRequest_def apologyOf_def
        lm_sendMessage_def lm_try_def or_sendMessage_def or_try_def)

lemma streamCompletion_refused:
  assumes "ready fetchKey cl"
    and "fetch (completionRequest fetchKey origin cl messages model opts) = Inr resp"
    and "\<not> ok resp"
  shows "streamCompletion parse fetch fetchKey origin cl messages model opts =
     \<lparr>yielded = [JStr (apologyOf cl)], raised = None,
      sent = [completionRequest fetchKey origin cl messages model opts]\<rparr>"
  using assms
  by (cases cl)
     (simp_all add: streamCompletion_def ready_def completionRequest_def apologyOf_def
        lm_sendMessage_def lm_try_def or_sendMessage_def or_try_def catchYield_def
        split: sum.splits)

lemma streaming_body:
  assumes "bodyStream resp = Some (chunks, ending)" and "optStream opts"
  shows "consumeResponse parse (optStream opts) resp = readLoop parse chunks ending"
  using assms by (simp add: consumeResponse_def)

section \<open>Further lemmas on the loop and on the clients\<close>

lemma streamCompletion_never_raises:
  "raised (streamCompletion parse fetch fetchKey origin cl messages model opts) = None"
  by (cases cl)
     (simp_all add: streamCompletion_def lm_sendMessage_def or_sendMessage_def catchYield_def
        split: option.splits)

lemma getSingleResponse_unfold:
  "getSingleResponse parse fetch fetchKey origin cl messages model =
     simpleResult (streamCompletion parse fetch fetchKey origin cl messages model unstreamed)"
  by (cases cl)
     (simp_all add: getSingleResponse_def streamCompletion_def lm_getSimpleResponse_def
        or_getSimpleResponse_def unstreamed_def)

lemma readLoop_all_clear:
  assumes "\<forall>chunk\<in>set chunks. \<not> hasDone chunk"
  shows "readLoop parse chunks ending = (concat (map (chunkFragments parse) chunks), ending)"
  using readLoop_no_done [OF assms, of parse "[]" ending] by simp

lemma texts_map_filter_concat:
  "concat (map (\<lambda>fs. texts (List.map_filter snd fs)) fss) = texts (List.map_filter snd (concat fss))"
  by (induction fss) (simp_all add: texts_def List.map_filter_def)

lemma whole_chunks:
  assumes "\<forall>f\<in>set (concat fss). taggedFrame parse f"
  shows "\<forall>chunk\<in>set (map (\<lambda>fs. frameChunk (map fst fs)) fss). \<not> hasDone chunk"
    and "concat (map (chunkFragments parse) (map (\<lambda>fs. frameChunk (map fst fs)) fss))
           = texts (List.map_filter snd (concat fss))"
proof -
  have each: "\<forall>fs\<in>set fss. \<forall>f\<in>set fs. taggedFrame parse f"
    using assms by auto
  show "\<forall>chunk\<in>set (map (\<lambda>fs. frameChunk (map fst fs)) fss). \<not> hasDone chunk"
    using each frameChunk_whole(1) by auto
  have eq: "\<forall>fs\<in>set fss. chunkFragments parse (frameChunk (map fst fs)) = texts (List.map_filter snd fs)"
    using each frameChunk_whole(2) by blast
  have "concat (map (chunkFragments parse) (map (\<lambda>fs. frameChunk (map fst fs)) fss))
          = concat (map (\<lambda>fs. texts (List.map_filter snd fs)) fss)"
    using eq by (induction fss) simp_all
  then show "concat (map (chunkFragments parse) (map (\<lambda>fs. frameChunk (map fst fs)) fss))
           = texts (List.map_filter snd (concat fss))"
    unfolding texts_map_filter_concat .
qed

lemma whole_stream:
  assumes "\<forall>f\<in>set (concat fss). taggedFrame parse f"
  shows "readLoop parse (map (\<lambda>fs. frameChunk (map fst fs)) fss) None
           = (texts (List.map_filter snd (concat fss)), None)"
  using readLoop_all_clear [OF whole_chunks(1) [OF assms]] whole_chunks(2) [OF assms] by simp

lemma whole_stream_done:
  assumes "\<forall>f\<in>set (concat fss). taggedFrame parse f" and "\<forall>f\<in>set fs. taggedFrame parse f"
  shows "readLoop parse (map (\<lambda>fs. frameChunk (map fst fs)) fss
                          @ (frameChunk (map fst fs) @ doneFrame @ junk) # rest) ending
           = (texts (List.map_filter snd (concat fss @ fs)), None)"
  using readLoop_no_done [OF whole_chunks(1) [OF assms(1)]] whole_chunks(2) [OF assms(1)]
        readLoop_done [OF frameChunk_done(1) [OF assms(2)]] frameChunk_done(2) [OF assms(2)]
  by (simp add: texts_def List.map_filter_def)

lemma valid_tagged:
  assumes "\<forall>f\<in>set fs. validFrame parse (fst f) (snd f)"
  shows "\<forall>f\<in>set (map (\<lambda>f. (fst f, Some (snd f))) fs). taggedFrame parse f"
    and "map fst (map (\<lambda>f. (fst f, Some (snd f))) fs) = map fst fs"
    and "List.map_filter snd (map (\<lambda>f. (fst f, Some (snd f))) fs) = map snd fs"
  using assms by (auto simp: taggedFrame_def List.map_filter_def comp_def)

lemma texts_joined: "concat (map textOf (texts ts)) = concat ts"
  by (induction ts) (simp_all add: texts_def)

lemma silent_frame:
  assumes "frameValue parse p \<in> {Some JUndefined, Some JNull, Some (JStr [])}"
    and "trim p \<noteq> ''[DONE]''"
  shows "processLines parse (frameLine p # ls) = processLines parse ls"
  using assms
  by (cases "processLines parse ls")
     (auto simp: frameValue_def frameContent_def frameLine_startsWith frameLine_payload
        split: option.splits sum.splits)

lemma processLines_cong_tail:
  "processLines parse ls1 = processLines parse ls2 \<Longrightarrow>
   processLines parse (ls @ ls1) = processLines parse (ls @ ls2)"
  by (simp add: processLines_append)

lemma splitOn_none: "c \<notin> set l \<Longrightarrow> splitOn c l = [l]"
  by (induction l) auto

lemma startsWith_nil: "\<not> startsWith [] ''data: ''"
  by (simp add: startsWith_def)

lemma frameChunk_nil: "frameChunk [] = []"
  by (simp add: frameChunk_def)

lemma deltaContent_deltaFrame: "deltaContent (deltaFrame c) = Inr c"
  by (simp add: deltaContent_def deltaFrame_def optChain_def)

lemma messageContent_messageReply: "messageContent (messageReply c) = Inr c"
  by (simp add: messageContent_def messageReply_def optChain_def)

lemma lm_sendMessage_streamed:
  "lm_sendMessage parse (always (streamed chunks ending)) c messages model defaults =
     \<lparr>yielded = fst (catchYield lm_apology (readLoop parse chunks ending)),
      raised = snd (catchYield lm_apology (readLoop parse chunks ending)),
      sent = [lm_request c messages model defaults]\<rparr>"
  by (simp add: lm_sendMessage_def lm_try_def always_def streamed_def ok_def consumeResponse_def
      optStream_def defaults_def)

lemma answers_streamed: "answers (always (streamed chunks ending)) req (streamed chunks ending)"
  by (simp add: answers_def always_def streamed_def ok_def)

lemma bodyStream_streamed: "bodyStream (streamed chunks ending) = Some (chunks, ending)"
  by (simp add: streamed_def)

lemma optStream_defaults: "optStream defaults"
  by (simp add: optStream_def defaults_def)

lemma ready_local: "ready fetchKey (Local c)"
  by (simp add: ready_def)

lemma frameContent_frameValue:
  "frameContent parse (trim p) =
     (case frameValue parse p of None \<Rightarrow> [] | Some c \<Rightarrow> (if truthy c then [c] else []))"
  by (simp add: frameContent_def frameValue_def split: option.splits sum.splits)

lemma wire_truthy: "wireContent c \<Longrightarrow> truthy c \<Longrightarrow> nonEmptyString c"
  by (cases c) (simp_all split: if_splits)

lemma lineFragments_wire:
  assumes "wireLine parse line"
  shows "\<forall>v\<in>set (lineFragments parse line). nonEmptyString v"
proof (cases "startsWith line ''data: ''")
  case True
  show ?thesis
  proof (cases "frameValue parse (drop 6 line)")
    case None
    then show ?thesis using True by (simp add: lineFragments_def frameContent_frameValue)
  next
    case (Some c)
    then have "wireContent c" using assms True by (simp add: wireLine_def)
    then show ?thesis
      using True Some wire_truthy [of c]
      by (simp add: lineFragments_def frameContent_frameValue)
  qed
next
  case False
  then show ?thesis by (simp add: lineFragments_def)
qed

lemma processLines_wire:
  "\<forall>line\<in>set ls. wireLine parse line \<Longrightarrow>
   \<forall>v\<in>set (fst (processLines parse ls)). nonEmptyString v"
proof (induction ls)
  case Nil
  then show ?case by simp
next
  case (Cons l ls)
  then have l: "wireLine parse l" and rest: "\<forall>line\<in>set ls. wireLine parse line" by simp_all
  show ?case
    using lineFragments_wire [OF l] Cons.IH [OF rest]
    by (auto simp: lineFragments_def)
qed

lemma readLoop_wire:
  "\<forall>chunk\<in>set chunks. wireChunk parse chunk \<Longrightarrow>
   \<forall>v\<in>set (fst (readLoop parse chunks ending)). nonEmptyString v"
proof (induction chunks)
  case Nil
  then show ?case by simp
next
  case (Cons c cs)
  then have c: "\<forall>line\<in>set (splitOn newline c). wireLine parse line"
    and rest: "\<forall>chunk\<in>set cs. wireChunk parse chunk"
    by (simp_all add: wireChunk_def list_all_iff)
  show ?case
    using processLines_wire [OF c] Cons.IH [OF rest] by auto
qed

lemma frameLine_wire:
  "taggedFrame parse f \<Longrightarrow> wireLine parse (frameLine (fst f))"
  by (cases f)
     (auto simp: taggedFrame_def validFrame_def malformedFrame_def wireLine_def frameValue_def
        frameLine_startsWith frameLine_payload split: option.splits)

lemma wireLine_nil: "wireLine parse []"
  by (simp add: wireLine_def startsWith_nil)

lemma frameChunk_wire:
  assumes "\<forall>f\<in>set fs. taggedFrame parse f"
  shows "wireChunk parse (frameChunk (map fst fs))"
proof -
  have "\<forall>line\<in>set (map frameLine (map fst fs)). wireLine parse line"
    using assms frameLine_wire by auto
  then show ?thesis
    using frameChunk_lines [OF assms, of "[]"] wireLine_nil
    by (simp add: wireChunk_def list_all_iff)
qed

section \<open>Facts about the concrete frames\<close>

lemma hiFrame_valid: "validFrame demoParse hiFrame ''Hi''"
proof -
  have t: "trim hiFrame = hiFrame" by (simp add: trim_def isWhiteSpace_def hiFrame_def)
  have n: "newline \<notin> set hiFrame" by (simp add: newline_def hiFrame_def)
  have d: "hiFrame \<noteq> ''[DONE]''" by (simp add: hiFrame_def)
  have p: "demoParse hiFrame = Some (deltaFrame (JStr ''Hi''))"
    by (simp add: demoParse_def hiFrame_def)
  show ?thesis by (simp add: validFrame_def t n d p deltaContent_deltaFrame)
qed

lemma thereFrame_valid: "validFrame demoParse thereFrame '' there''"
proof -
  have t: "trim thereFrame = thereFrame" by (simp add: trim_def isWhiteSpace_def thereFrame_def)
  have n: "newline \<notin> set thereFrame" by (simp add: newline_def thereFrame_def)
  have d: "thereFrame \<noteq> ''[DONE]''" by (simp add: thereFrame_def)
  have p: "demoParse thereFrame = Some (deltaFrame (JStr '' there''))"
    by (simp add: demoParse_def thereFrame_def)
  show ?thesis by (simp add: validFrame_def t n d p deltaContent_deltaFrame)
qed

lemma brokenFrame_malformed: "malformedFrame demoParse brokenFrame"
proof -
  have t: "trim brokenFrame = brokenFrame" by (simp add: trim_def isWhiteSpace_def brokenFrame_def)
  have n: "newline \<notin> set brokenFrame" by (simp add: newline_def brokenFrame_def)
  have d: "brokenFrame \<noteq> ''[DONE]''" by (simp add: brokenFrame_def)
  have p: "demoParse brokenFrame = None"
    by (simp add: demoParse_def brokenFrame_def)
  show ?thesis by (simp add: malformedFrame_def t n d p)
qed

lemma emptyFrame_value: "frameValue demoParse emptyFrame = Some (JStr [])" "trim emptyFrame \<noteq> ''[DONE]''"
proof -
  have t: "trim emptyFrame = emptyFrame" by (simp add: trim_def isWhiteSpace_def emptyFrame_def)
  have d: "emptyFrame \<noteq> ''[DONE]''" by (simp add: emptyFrame_def)
  have p: "demoParse emptyFrame = Some (deltaFrame (JStr []))"
    by (simp add: demoParse_def emptyFrame_def)
  show "frameValue demoParse emptyFrame = Some (JStr [])"
    by (simp add: frameValue_def t p deltaContent_deltaFrame)
  show "trim emptyFrame \<noteq> ''[DONE]''" by (simp add: t d)
qed

lemma split_frame_chunks:
  "readLoop demoParse [hiHead, hiTail, doneFrame] None = ([], None)"
  "hiHead @ hiTail = frameChunk [hiFrame]"
proof -
  have n1: "newline \<notin> set hiHead" by (simp add: newline_def hiHead_def)
  have l1: "splitOn newline hiHead = [hiHead]" using splitOn_none [OF n1] .
  have s1: "startsWith hiHead ''data: ''" by (simp add: startsWith_def hiHead_def)
  have t1: "trim (drop 6 hiHead) \<noteq> ''[DONE]''"
    by (simp add: trim_def isWhiteSpace_def hiHead_def)
  have p1: "demoParse (trim (drop 6 hiHead)) = None"
    by (simp add: trim_def isWhiteSpace_def hiHead_def demoParse_def)
  have a1: "processLines demoParse [hiHead] = ([], False)"
    by (simp add: s1 t1 p1 frameContent_def)
  have s2: "\<not> startsWith (butlast hiTail) ''data: ''"
    by (simp add: startsWith_def hiTail_def)
  have n2: "newline \<notin> set (butlast hiTail)" by (simp add: newline_def hiTail_def)
  have h2: "hiTail = butlast hiTail @ newline # []" by (simp add: hiTail_def)
  have l2: "splitOn newline hiTail = [butlast hiTail, []]"
    using splitOn_line [OF n2, of "[]"] h2 by simp
  have a2: "processLines demoParse [butlast hiTail, []] = ([], False)"
    using s2 by (simp add: startsWith_nil)
  have n3: "newline \<notin> set (frameLine ''[DONE]'')" by (simp add: newline_def frameLine_def)
  have l3: "splitOn newline doneFrame = [frameLine ''[DONE]'', []]"
    using splitOn_line [OF n3, of "[]"] by (simp add: doneFrame_def)
  have a3: "processLines demoParse [frameLine ''[DONE]'', []] = ([], True)"
    using doneLine_is_done by (simp add: isDoneLine_def)
  show "readLoop demoParse [hiHead, hiTail, doneFrame] None = ([], None)"
    by (simp add: l1 a1 l2 a2 l3 a3 del: processLines.simps)
  show "hiHead @ hiTail = frameChunk [hiFrame]"
    by (simp add: hiHead_def hiTail_def frameChunk_def frameLine_def hiFrame_def)
qed

lemma hi_tagged: "taggedFrame demoParse (hiFrame, Some ''Hi'')"
  using hiFrame_valid by (simp add: taggedFrame_def)

lemma there_tagged: "taggedFrame demoParse (thereFrame, Some '' there'')"
  using thereFrame_valid by (simp add: taggedFrame_def)

lemma broken_tagged: "taggedFrame demoParse (brokenFrame, None)"
  using brokenFrame_malformed by (simp add: taggedFrame_def)

lemma hi_then_done: "readLoop demoParse [frameChunk [hiFrame], doneFrame] None = ([JStr ''Hi''], None)"
proof -
  have a: "\<forall>f\<in>set (concat [[(hiFrame, Some ''Hi'')]]). taggedFrame demoParse f"
    using hi_tagged by simp
  have b: "\<forall>f\<in>set []. taggedFrame demoParse f" by simp
  show ?thesis
    using whole_stream_done [OF a b, of "[]" "[]" None]
    by (simp add: frameChunk_nil texts_def List.map_filter_def)
qed

lemma emptyFrame_valid: "validFrame demoParse emptyFrame []"
proof -
  have t: "trim emptyFrame = emptyFrame" by (simp add: trim_def isWhiteSpace_def emptyFrame_def)
  have n: "newline \<notin> set emptyFrame" by (simp add: newline_def emptyFrame_def)
  have d: "emptyFrame \<noteq> ''[DONE]''" by (simp add: emptyFrame_def)
  have p: "demoParse emptyFrame = Some (deltaFrame (JStr []))"
    by (simp add: demoParse_def emptyFrame_def)
  show ?thesis by (simp add: validFrame_def t n d p deltaContent_deltaFrame)
qed

lemma empty_tagged: "taggedFrame demoParse (emptyFrame, Some [])"
  using emptyFrame_valid by (simp add: taggedFrame_def)

lemma broken_then_hi:
  "readLoop demoParse [frameChunk [brokenFrame, hiFrame]] None = ([JStr ''Hi''], None)"
proof -
  have a: "\<forall>f\<in>set (concat [[(brokenFrame, None), (hiFrame, Some ''Hi'')]]). taggedFrame demoParse f"
    using hi_tagged broken_tagged by simp
  show ?thesis
    using whole_stream [OF a] by (simp add: texts_def List.map_filter_def)
qed

lemma broken_then_cut_hi:
  "readLoop demoParse [frameChunk [brokenFrame] @ hiHead, hiTail] None = ([], None)"
  "(frameChunk [brokenFrame] @ hiHead) @ hiTail = frameChunk [brokenFrame, hiFrame]"
proof -
  have b: "\<forall>f\<in>set [(brokenFrame, None)]. taggedFrame demoParse f"
    using broken_tagged by simp
  have n1: "newline \<notin> set hiHead" by (simp add: newline_def hiHead_def)
  have l1: "splitOn newline (frameChunk [brokenFrame] @ hiHead) = [frameLine brokenFrame, hiHead]"
    using frameChunk_lines [OF b, of hiHead] splitOn_none [OF n1] by simp
  have f0: "lineFragments demoParse (frameLine brokenFrame) = []"
    and d0: "\<not> isDoneLine (frameLine brokenFrame)"
    using frame_fragments [OF broken_tagged] by (simp_all add: texts_def)
  have s1: "startsWith hiHead ''data: ''" by (simp add: startsWith_def hiHead_def)
  have t1: "trim (drop 6 hiHead) \<noteq> ''[DONE]''"
    by (simp add: trim_def isWhiteSpace_def hiHead_def)
  have p1: "demoParse (trim (drop 6 hiHead)) = None"
    by (simp add: trim_def isWhiteSpace_def hiHead_def demoParse_def)
  have f1: "lineFragments demoParse hiHead = []" and d1: "\<not> isDoneLine hiHead"
    by (simp_all add: lineFragments_def isDoneLine_def s1 t1 p1 frameContent_def)
  have nd: "\<not> list_ex isDoneLine [frameLine brokenFrame, hiHead]"
    using d0 d1 by simp
  have a1: "processLines demoParse [frameLine brokenFrame, hiHead] = ([], False)"
    using processLines_fragments [OF nd, of demoParse]
          processLines_done [of demoParse "[frameLine brokenFrame, hiHead]"] nd
    by (simp add: f0 f1 prod_eq_iff del: processLines.simps)
  have s2: "\<not> startsWith (butlast hiTail) ''data: ''"
    by (simp add: startsWith_def hiTail_def)
  have n2: "newline \<notin> set (butlast hiTail)" by (simp add: newline_def hiTail_def)
  have h2: "hiTail = butlast hiTail @ newline # []" by (simp add: hiTail_def)
  have l2: "splitOn newline hiTail = [butlast hiTail, []]"
    using splitOn_line [OF n2, of "[]"] h2 by simp
  have a2: "processLines demoParse [butlast hiTail, []] = ([], False)"
    using s2 by (simp add: startsWith_nil)
  show "readLoop demoParse [frameChunk [brokenFrame] @ hiHead, hiTail] None = ([], None)"
    by (simp add: l1 a1 l2 a2 del: processLines.simps)
  show "(frameChunk [brokenFrame] @ hiHead) @ hiTail = frameChunk [brokenFrame, hiFrame]"
    by (simp add: hiHead_def hiTail_def frameChunk_def frameLine_def hiFrame_def)
qed

section \<open>Properties\<close>

subsection \<open>C1: a non-success status\<close>

text \<open>
  Against C1 as stated: a request refused with status 401 by the local server. Nothing
  is raised, and the one fragment the consumer gets is the apology.
\<close>

theorem non_success_status_counterexample:
  "raised (lm_sendMessage demoParse (always unauthorized) demoLocal hello ''test-model'' defaults) = None
   \<and> yielded (lm_sendMessage demoParse (always unauthorized) demoLocal hello ''test-model'' defaults)
       = [JStr ''Sorry, I encountered an error while processing your request.'']"
  by (simp add: lm_sendMessage_def lm_try_def always_def unauthorized_def ok_def catchYield_def
      lm_apology_def)

text \<open>
  C1, as the code has it: when the chat-completion request of either client is answered
  with a non-success status, the error thrown for it is caught by the client's own handler;
  the generator yields exactly one fragment, the client's apology, and ends without raising.
\<close>

theorem non_success_status_apology:
  assumes "ready fetchKey cl"
    and "fetch (completionRequest fetchKey origin cl messages model opts) = Inr resp"
    and "\<not> ok resp"
  shows "yielded (streamCompletion parse fetch fetchKey origin cl messages model opts)
           = [JStr (apologyOf cl)]
         \<and> raised (streamCompletion parse fetch fetchKey origin cl messages model opts) = None"
  using streamCompletion_refused [where fetch = fetch and parse = parse, OF assms] by simp

theorem non_success_status_apology_witness:
  "yielded (streamCompletion demoParse (always unauthorized) (Inl NetworkError)
      ''http://localhost:5173'' (Cloud demoCloud) hello ''test-model'' defaults)
     = [JStr or_apology]
   \<and> raised (streamCompletion demoParse (always unauthorized) (Inl NetworkError)
      ''http://localhost:5173'' (Cloud demoCloud) hello ''test-model'' defaults) = None"
  using non_success_status_apology [of "Inl NetworkError" "Cloud demoCloud" "always unauthorized"
      "''http://localhost:5173''" hello "''test-model''" defaults unauthorized demoParse]
  by (simp add: ready_def isConfigured_def resolveKey_def demoCloud_def always_def
      unauthorized_def ok_def apologyOf_def)

subsection \<open>C2: the headers of the cloud client\<close>

text \<open>
  Against C2 as stated: the catalog request of a configured cloud client carries one
  header, the credential, and no attribution header.
\<close>

theorem catalog_request_counterexample:
  \<open>map req_headers (fst (snd (or_getModels
       (always (replied ''{"data":[]}'' (JObj [(''data'', JArr [])]))) (Inl NetworkError) demoCloud)))
     = [[(''Authorization'', ''Bearer sk-test'')]]\<close>
  by (simp add: or_getModels_def isConfigured_def resolveKey_def demoCloud_def modelsRequest_def)

text \<open>
  C2, as the code has it: every request the cloud client sends carries
  \<^verbatim>\<open>Authorization: Bearer <key>\<close>, with the key it holds after the lazy fetch. The
  chat-completion request carries, besides the content type, the two attribution headers
  \<^verbatim>\<open>HTTP-Referer\<close> (the page's origin) and \<^verbatim>\<open>X-Title\<close>; the catalog and the usage
  request carry the credential alone.
\<close>

theorem cloud_request_headers:
  "(\<forall>req \<in> set (sent (snd (or_sendMessage parse fetch fetchKey origin c messages model opts))).
      req_headers req = [(''Content-Type'', ''application/json''),
                         (''Authorization'', ''Bearer '' @ or_apiKey (resolveKey fetchKey c)),
                         (''HTTP-Referer'', origin), (''X-Title'', ''ZChat'')])
   \<and> (\<forall>req \<in> set (fst (snd (or_getModels fetch fetchKey c))).
      req_headers req = [(''Authorization'', ''Bearer '' @ or_apiKey (resolveKey fetchKey c))])
   \<and> (\<forall>req \<in> set (fst (snd (or_getUsage fetch fetchKey c))).
      req_headers req = [(''Authorization'', ''Bearer '' @ or_apiKey (resolveKey fetchKey c))])"
  by (simp add: or_sendMessage_def or_getModels_def or_getUsage_def or_request_def
      modelsRequest_def usageRequest_def)

theorem cloud_request_headers_witness:
  "map req_headers (sent (snd (or_sendMessage demoParse (always unauthorized) (Inr ''sk-live'')
       ''http://localhost:5173'' keylessCloud hello ''test-model'' defaults)))
     = [[(''Content-Type'', ''application/json''), (''Authorization'', ''Bearer sk-live''),
         (''HTTP-Referer'', ''http://localhost:5173''), (''X-Title'', ''ZChat'')]]
   \<and> map req_headers (fst (snd (or_getUsage (always unauthorized) (Inr ''sk-live'') keylessCloud)))
     = [[(''Authorization'', ''Bearer sk-live'')]]"
  using cloud_request_headers [of demoParse "always unauthorized" "Inr ''sk-live''"
      "''http://localhost:5173''" keylessCloud hello "''test-model''" defaults]
  by (simp add: or_sendMessage_def or_getUsage_def isConfigured_def resolveKey_def
      keylessCloud_def)

subsection \<open>C3: a stream of valid frames\<close>

text \<open>
  Against C3 as stated: one frame, delivered whole and then cut in two by the network.
  Whole it gives its text; cut it gives nothing, since each chunk is split into lines on
  its own and neither piece is a frame.
\<close>

theorem split_frame_counterexample:
  "hiHead @ hiTail = frameChunk [hiFrame]
   \<and> yielded (lm_sendMessage demoParse (always (streamed [hiHead @ hiTail, doneFrame] None))
        demoLocal hello ''test-model'' defaults) = [JStr ''Hi'']
   \<and> yielded (lm_sendMessage demoParse (always (streamed [hiHead, hiTail, doneFrame] None))
        demoLocal hello ''test-model'' defaults) = []
   \<and> raised (lm_sendMessage demoParse (always (streamed [hiHead, hiTail, doneFrame] None))
        demoLocal hello ''test-model'' defaults) = None"
  by (simp add: lm_sendMessage_streamed split_frame_chunks hi_then_done catchYield_simps
      del: readLoop.simps)

text \<open>
  C3, as the code has it: when every chunk of the stream holds whole frames, all of them
  valid, \<^verbatim>\<open>sendMessage\<close> in streaming mode yields the frames' texts in frame order,
  a frame with the empty text giving no fragment, so that the fragments joined are the
  full response. It ends without raising, at the end of the stream or at the first
  \<^verbatim>\<open>data: [DONE]\<close> line, whatever follows that line: more bytes, more chunks, a
  failing read.
\<close>

theorem whole_frames_decoded_in_order:
  assumes "ready fetchKey cl" and "optStream opts"
    and "answers fetch (completionRequest fetchKey origin cl messages model opts) resp"
    and "\<forall>f\<in>set (concat fss @ fs). validFrame parse (fst f) (snd f)"
    and "(bodyStream resp = Some (map (\<lambda>fs. frameChunk (map fst fs)) fss, None) \<and> fs = [])
         \<or> bodyStream resp = Some (map (\<lambda>fs. frameChunk (map fst fs)) fss
                                     @ (frameChunk (map fst fs) @ doneFrame @ junk) # rest, ending)"
  shows "yielded (streamCompletion parse fetch fetchKey origin cl messages model opts)
           = texts (map snd (concat fss @ fs))
         \<and> raised (streamCompletion parse fetch fetchKey origin cl messages model opts) = None
         \<and> concat (map textOf (yielded (streamCompletion parse fetch fetchKey origin cl messages model opts)))
           = concat (map snd (concat fss @ fs))"
proof -
  let ?tag = "map (\<lambda>f. (fst f, Some (snd f)))"
  let ?tss = "map ?tag fss"
  have v1: "\<forall>f\<in>set (concat fss). validFrame parse (fst f) (snd f)"
    and v2: "\<forall>f\<in>set fs. validFrame parse (fst f) (snd f)"
    using assms(4) by auto
  have c: "concat ?tss = ?tag (concat fss)" by (simp add: map_concat)
  have t1: "\<forall>f\<in>set (concat ?tss). taggedFrame parse f"
    unfolding c using valid_tagged(1) [OF v1] .
  have chunks: "map (\<lambda>fs. frameChunk (map fst fs)) ?tss = map (\<lambda>fs. frameChunk (map fst fs)) fss"
    by (simp add: comp_def)
  have out1: "List.map_filter snd (concat ?tss) = map snd (concat fss)"
    unfolding c using valid_tagged(3) [OF v1] .
  have out2: "List.map_filter snd (concat ?tss @ ?tag fs) = map snd (concat fss @ fs)"
    unfolding c using valid_tagged(3) [of "concat fss @ fs" parse] assms(4) by simp
  have fst2: "map fst (?tag fs) = map fst fs" by (simp add: comp_def)
  have run: "consumeResponse parse (optStream opts) resp = (texts (map snd (concat fss @ fs)), None)"
    using assms(5)
  proof
    assume a: "bodyStream resp = Some (map (\<lambda>fs. frameChunk (map fst fs)) fss, None) \<and> fs = []"
    then show ?thesis
      using streaming_body [OF conjunct1 [OF a] assms(2), of parse] whole_stream [OF t1]
      by (simp add: chunks out1 del: map_map)
  next
    assume b: "bodyStream resp = Some (map (\<lambda>fs. frameChunk (map fst fs)) fss
                 @ (frameChunk (map fst fs) @ doneFrame @ junk) # rest, ending)"
    show ?thesis
      using streaming_body [OF b assms(2), of parse]
            whole_stream_done [OF t1 valid_tagged(1) [OF v2], of junk rest ending]
      by (simp add: chunks out2 fst2 del: map_map map_append)
  qed
  show ?thesis
    using streamCompletion_answered [where parse = parse, OF assms(1,3)] run
    by (simp add: catchYield_simps texts_joined del: map_append)
qed

theorem whole_frames_decoded_in_order_witness:
  "yielded (streamCompletion demoParse
      (always (streamed [frameChunk [hiFrame], frameChunk [thereFrame],
                         doneFrame @ ''data: late'', ''more''] (Some NetworkError)))
      (Inl NetworkError) ''http://localhost:5173'' (Local demoLocal) hello ''test-model'' defaults)
     = [JStr ''Hi'', JStr '' there'']
   \<and> raised (streamCompletion demoParse
      (always (streamed [frameChunk [hiFrame], frameChunk [thereFrame],
                         doneFrame @ ''data: late'', ''more''] (Some NetworkError)))
      (Inl NetworkError) ''http://localhost:5173'' (Local demoLocal) hello ''test-model'' defaults)
     = None"
proof -
  let ?resp = "streamed [frameChunk [hiFrame], frameChunk [thereFrame],
                         doneFrame @ ''data: late'', ''more''] (Some NetworkError)"
  let ?fss = "[[(hiFrame, ''Hi'')], [(thereFrame, '' there'')]]"
  have v: "\<forall>f\<in>set (concat ?fss @ []). validFrame demoParse (fst f) (snd f)"
    using hiFrame_valid thereFrame_valid by simp
  have b: "(bodyStream ?resp = Some (map (\<lambda>fs. frameChunk (map fst fs)) ?fss, None) \<and> [] = [])
         \<or> bodyStream ?resp = Some (map (\<lambda>fs. frameChunk (map fst fs)) ?fss
               @ (frameChunk (map fst []) @ doneFrame @ ''data: late'') # [''more''],
               Some NetworkError)"
    by (simp add: bodyStream_streamed frameChunk_nil)
  show ?thesis
    using whole_frames_decoded_in_order [where parse = demoParse and fetch = "always ?resp"
        and origin = "''http://localhost:5173''" and messages = hello and model = "''test-model''",
        OF ready_local optStream_defaults answers_streamed v b]
    by (simp add: texts_def)
qed

subsection \<open>C4: a failure in mid-stream\<close>

text \<open>
  C4: when the reads deliver chunks without a sentinel and then fail, the consumer gets
  every fragment decoded from those chunks, then exactly one more fragment, the client's
  apology, and the generator ends without raising.
\<close>

theorem mid_stream_failure_apology:
  assumes "ready fetchKey cl" and "optStream opts"
    and "answers fetch (completionRequest fetchKey origin cl messages model opts) resp"
    and "bodyStream resp = Some (chunks, Some e)"
    and "\<forall>chunk\<in>set chunks. \<not> hasDone chunk"
  shows "yielded (streamCompletion parse fetch fetchKey origin cl messages model opts)
           = concat (map (chunkFragments parse) chunks) @ [JStr (apologyOf cl)]
         \<and> raised (streamCompletion parse fetch fetchKey origin cl messages model opts) = None"
  using streamCompletion_answered [where parse = parse, OF assms(1,3)]
        streaming_body [OF assms(4,2), of parse] readLoop_all_clear [OF assms(5), of parse "Some e"]
  by (simp add: catchYield_simps)

theorem mid_stream_failure_apology_witness:
  "yielded (streamCompletion demoParse
      (always (streamed [frameChunk [hiFrame]] (Some NetworkError)))
      (Inl NetworkError) ''http://localhost:5173'' (Local demoLocal) hello ''test-model'' defaults)
     = [JStr ''Hi'', JStr ''Sorry, I encountered an error while processing your request.'']
   \<and> raised (streamCompletion demoParse
      (always (streamed [frameChunk [hiFrame]] (Some NetworkError)))
      (Inl NetworkError) ''http://localhost:5173'' (Local demoLocal) hello ''test-model'' defaults)
     = None"
proof -
  let ?resp = "streamed [frameChunk [hiFrame]] (Some NetworkError)"
  have t: "\<forall>f\<in>set [(hiFrame, Some ''Hi'')]. taggedFrame demoParse f"
    using hi_tagged by simp
  have n: "\<forall>chunk\<in>set [frameChunk [hiFrame]]. \<not> hasDone chunk"
    using frameChunk_whole(1) [OF t] by simp
  have c: "chunkFragments demoParse (frameChunk [hiFrame]) = [JStr ''Hi'']"
    using frameChunk_whole(2) [OF t] by (simp add: texts_def List.map_filter_def)
  show ?thesis
    using mid_stream_failure_apology [where parse = demoParse and fetch = "always ?resp"
        and origin = "''http://localhost:5173''" and messages = hello and model = "''test-model''",
        OF ready_local optStream_defaults answers_streamed bodyStream_streamed n]
    by (simp add: c apologyOf_def lm_apology_def)
qed

subsection \<open>C5: malformed frames\<close>

text \<open>
  Against C5 as stated: a malformed frame followed by a valid one. Delivered in one
  chunk the stream gives the valid frame's text; when the network cuts the valid frame in
  two it gives nothing, and nothing is raised.
\<close>

theorem cut_frame_after_malformed_counterexample:
  "(frameChunk [brokenFrame] @ hiHead) @ hiTail = frameChunk [brokenFrame, hiFrame]
   \<and> yielded (lm_sendMessage demoParse (always (streamed [frameChunk [brokenFrame, hiFrame]] None))
        demoLocal hello ''test-model'' defaults) = [JStr ''Hi'']
   \<and> yielded (lm_sendMessage demoParse
        (always (streamed [frameChunk [brokenFrame] @ hiHead, hiTail] None))
        demoLocal hello ''test-model'' defaults) = []
   \<and> raised (lm_sendMessage demoParse
        (always (streamed [frameChunk [brokenFrame] @ hiHead, hiTail] None))
        demoLocal hello ''test-model'' defaults) = None"
  using broken_then_cut_hi(2)
  by (simp add: lm_sendMessage_streamed broken_then_cut_hi(1) broken_then_hi catchYield_simps
      del: readLoop.simps append_assoc)

text \<open>
  C5, as the code has it: when every chunk of the stream holds whole frames, each either
  valid or rejected by \<^verbatim>\<open>JSON.parse\<close>, the fragments are the texts of the valid
  frames in their order, a frame with the empty text giving no fragment, so that the
  fragments joined are the valid texts joined. A malformed frame is passed over, nothing
  of what follows it is lost, and nothing is raised; the stream ends at its end or at the
  first \<^verbatim>\<open>data: [DONE]\<close> line, whatever follows that line.
\<close>

theorem whole_frames_malformed_skipped:
  assumes "ready fetchKey cl" and "optStream opts"
    and "answers fetch (completionRequest fetchKey origin cl messages model opts) resp"
    and "\<forall>f\<in>set (concat fss @ fs). taggedFrame parse f"
    and "(bodyStream resp = Some (map (\<lambda>fs. frameChunk (map fst fs)) fss, None) \<and> fs = [])
         \<or> bodyStream resp = Some (map (\<lambda>fs. frameChunk (map fst fs)) fss
                                     @ (frameChunk (map fst fs) @ doneFrame @ junk) # rest, ending)"
  shows "yielded (streamCompletion parse fetch fetchKey origin cl messages model opts)
           = texts (List.map_filter snd (concat fss @ fs))
         \<and> raised (streamCompletion parse fetch fetchKey origin cl messages model opts) = None
         \<and> concat (map textOf (yielded (streamCompletion parse fetch fetchKey origin cl messages model opts)))
           = concat (List.map_filter snd (concat fss @ fs))"
proof -
  have t1: "\<forall>f\<in>set (concat fss). taggedFrame parse f"
    and t2: "\<forall>f\<in>set fs. taggedFrame parse f"
    using assms(4) by auto
  have run: "consumeResponse parse (optStream opts) resp
               = (texts (List.map_filter snd (concat fss @ fs)), None)"
    using assms(5)
  proof
    assume a: "bodyStream resp = Some (map (\<lambda>fs. frameChunk (map fst fs)) fss, None) \<and> fs = []"
    then show ?thesis
      using streaming_body [OF conjunct1 [OF a] assms(2), of parse] whole_stream [OF t1]
      by simp
  next
    assume b: "bodyStream resp = Some (map (\<lambda>fs. frameChunk (map fst fs)) fss
                 @ (frameChunk (map fst fs) @ doneFrame @ junk) # rest, ending)"
    show ?thesis
      using streaming_body [OF b assms(2), of parse]
            whole_stream_done [OF t1 t2, of junk rest ending]
      by simp
  qed
  show ?thesis
    using streamCompletion_answered [where parse = parse, OF assms(1,3)] run
    by (simp add: catchYield_simps texts_joined del: map_append)
qed

theorem whole_frames_malformed_skipped_witness:
  "yielded (streamCompletion demoParse
      (always (streamed [frameChunk [hiFrame, brokenFrame], frameChunk [thereFrame],
                         frameChunk [brokenFrame] @ doneFrame @ frameChunk [hiFrame]] None))
      (Inl NetworkError) ''http://localhost:5173'' (Local demoLocal) hello ''test-model'' defaults)
     = [JStr ''Hi'', JStr '' there'']
   \<and> raised (streamCompletion demoParse
      (always (streamed [frameChunk [hiFrame, brokenFrame], frameChunk [thereFrame],
                         frameChunk [brokenFrame] @ doneFrame @ frameChunk [hiFrame]] None))
      (Inl NetworkError) ''http://localhost:5173'' (Local demoLocal) hello ''test-model'' defaults)
     = None"
proof -
  let ?resp = "streamed [frameChunk [hiFrame, brokenFrame], frameChunk [thereFrame],
                         frameChunk [brokenFrame] @ doneFrame @ frameChunk [hiFrame]] None"
  let ?fss = "[[(hiFrame, Some ''Hi''), (brokenFrame, None)], [(thereFrame, Some '' there'')]]"
  let ?fs = "[(brokenFrame, None :: string option)]"
  have t: "\<forall>f\<in>set (concat ?fss @ ?fs). taggedFrame demoParse f"
    using hi_tagged there_tagged broken_tagged by simp
  have b: "(bodyStream ?resp = Some (map (\<lambda>fs. frameChunk (map fst fs)) ?fss, None) \<and> ?fs = [])
         \<or> bodyStream ?resp = Some (map (\<lambda>fs. frameChunk (map fst fs)) ?fss
               @ (frameChunk (map fst ?fs) @ doneFrame @ frameChunk [hiFrame]) # [], None)"
    by (simp add: bodyStream_streamed)
  show ?thesis
    using whole_frames_malformed_skipped [where parse = demoParse and fetch = "always ?resp"
        and origin = "''http://localhost:5173''" and messages = hello and model = "''test-model''",
        OF ready_local optStream_defaults answers_streamed t b]
    by (simp add: texts_def List.map_filter_def)
qed

subsection \<open>C6: no credential\<close>

text \<open>
  C6: when the cloud client holds no key and the settings store gives none (it fails, or
  answers the empty key), \<^verbatim>\<open>sendMessage\<close> yields exactly one fragment, the explanation,
  sends no request and does not raise.
\<close>

theorem no_credential_short_circuit:
  assumes "or_apiKey c = []"
    and "case fetchKey of Inl e \<Rightarrow> True | Inr k \<Rightarrow> k = []"
  shows "snd (or_sendMessage parse fetch fetchKey origin c messages model opts) =
           \<lparr>yielded = [JStr or_noKey], raised = None, sent = []\<rparr>"
  using assms
  by (simp add: or_sendMessage_def isConfigured_def resolveKey_def split: sum.splits)

theorem no_credential_short_circuit_witness:
  "snd (or_sendMessage demoParse (always unauthorized) (Inl NetworkError) ''http://localhost:5173''
          keylessCloud hello ''test-model'' defaults) =
     \<lparr>yielded = [JStr or_noKey], raised = None, sent = []\<rparr>
   \<and> snd (or_sendMessage demoParse (always unauthorized) (Inr []) ''http://localhost:5173''
          keylessCloud hello ''test-model'' defaults) =
     \<lparr>yielded = [JStr or_noKey], raised = None, sent = []\<rparr>"
  using no_credential_short_circuit [of keylessCloud "Inl NetworkError" demoParse
          "always unauthorized" "''http://localhost:5173''" hello "''test-model''" defaults]
        no_credential_short_circuit [of keylessCloud "Inr []" demoParse
          "always unauthorized" "''http://localhost:5173''" hello "''test-model''" defaults]
  by (simp add: keylessCloud_def)

subsection \<open>C7: the availability probe\<close>

text \<open>
  C7: \<^verbatim>\<open>isAvailable\<close> never throws. It returns false when the probe fails (network
  error, timeout) or is answered with a non-success status, and true exactly when the
  catalog request is answered with a success status.
\<close>

theorem isAvailable_never_throws:
  "isAvailable fetch c = Inr (case fetch (lm_probe c) of Inl e \<Rightarrow> False | Inr resp \<Rightarrow> ok resp)"
  by (simp add: isAvailable_def split: sum.splits)

theorem isAvailable_never_throws_witness:
  "isAvailable (failing TimeoutError) demoLocal = Inr False
   \<and> isAvailable (always unauthorized) demoLocal = Inr False
   \<and> isAvailable (always (replied [] JNull)) demoLocal = Inr True"
  using isAvailable_never_throws [of "failing TimeoutError" demoLocal]
        isAvailable_never_throws [of "always unauthorized" demoLocal]
        isAvailable_never_throws [of "always (replied [] JNull)" demoLocal]
  by (simp add: failing_def always_def unauthorized_def replied_def ok_def)


subsection \<open>C8: the non-streaming reply\<close>

text \<open>
  C8: with \<^verbatim>\<open>stream: false\<close>, a request answered with a success status and a JSON
  body whose \<^verbatim>\<open>choices[0].message.content\<close> is a text makes \<^verbatim>\<open>sendMessage\<close> yield
  exactly one fragment, that text, and end without raising.
\<close>

theorem non_streaming_single_fragment:
  assumes "ready fetchKey cl"
    and "answers fetch (completionRequest fetchKey origin cl messages model opts) resp"
    and "opt_stream opts = Some False"
    and "jsonBody resp = Inr data"
    and "messageContent data = Inr (JStr t)"
  shows "yielded (streamCompletion parse fetch fetchKey origin cl messages model opts) = [JStr t]
         \<and> raised (streamCompletion parse fetch fetchKey origin cl messages model opts) = None"
proof -
  have "consumeResponse parse (optStream opts) resp = ([JStr t], None)"
    using assms(3-5)
    by (simp add: consumeResponse_def optStream_def nonStreaming_def or_else_def
        split: option.splits)
  then show ?thesis
    using streamCompletion_answered [where parse = parse, OF assms(1,2)]
    by (simp add: catchYield_simps)
qed

theorem non_streaming_single_fragment_witness:
  \<open>yielded (streamCompletion demoParse
      (always (replied ''{"choices":[{"message":{"content":"Hi there"}}]}''
                 (messageReply (JStr ''Hi there''))))
      (Inl NetworkError) ''http://localhost:5173'' (Local demoLocal) hello ''test-model'' unstreamed)
     = [JStr ''Hi there'']
   \<and> raised (streamCompletion demoParse
      (always (replied ''{"choices":[{"message":{"content":"Hi there"}}]}''
                 (messageReply (JStr ''Hi there''))))
      (Inl NetworkError) ''http://localhost:5173'' (Local demoLocal) hello ''test-model'' unstreamed)
     = None\<close>
  using non_streaming_single_fragment [of "Inl NetworkError" "Local demoLocal"
      \<open>always (replied ''{"choices":[{"message":{"content":"Hi there"}}]}''
                 (messageReply (JStr ''Hi there'')))\<close>
      "''http://localhost:5173''" hello "''test-model''" unstreamed
      \<open>replied ''{"choices":[{"message":{"content":"Hi there"}}]}''
                 (messageReply (JStr ''Hi there''))\<close>
      "messageReply (JStr ''Hi there'')" "''Hi there''" demoParse]
  by (simp add: ready_def answers_def always_def replied_def ok_def unstreamed_def
      messageReply_def messageContent_def optChain_def)

subsection \<open>C9: the single response\<close>

text \<open>
  Against C9 as stated: a reply whose text is empty. The one fragment yielded is the
  empty string, and \<^verbatim>\<open>getSimpleResponse\<close> returns the sentinel instead of it.
\<close>

theorem empty_reply_counterexample:
  \<open>yielded (lm_sendMessage demoParse
      (always (replied ''{"choices":[{"message":{"content":""}}]}'' (messageReply (JStr []))))
      demoLocal hello ''test-model'' unstreamed) = [JStr []]
   \<and> lm_getSimpleResponse demoParse
      (always (replied ''{"choices":[{"message":{"content":""}}]}'' (messageReply (JStr []))))
      demoLocal hello ''test-model'' = Inr (JStr ''No response received'')\<close>
  by (simp add: lm_getSimpleResponse_def simpleResult_def nextValue_def lm_sendMessage_def
      lm_try_def always_def replied_def ok_def consumeResponse_def optStream_def unstreamed_def
      nonStreaming_def messageReply_def messageContent_def optChain_def or_else_def
      catchYield_def noResponse_def)

text \<open>
  C9, as the code has it: \<^verbatim>\<open>getSimpleResponse\<close> of either client never raises. It
  returns the sentinel when the generator yields nothing and also when the first fragment
  is falsy (the empty string); otherwise it returns the first fragment.
\<close>

theorem getSingleResponse_first_or_sentinel:
  "getSingleResponse parse fetch fetchKey origin cl messages model =
     Inr (case yielded (streamCompletion parse fetch fetchKey origin cl messages model unstreamed) of
            [] \<Rightarrow> JStr noResponse
          | v # rest \<Rightarrow> (if truthy v then v else JStr noResponse))"
  using streamCompletion_never_raises [of parse fetch fetchKey origin cl messages model unstreamed]
  by (simp add: getSingleResponse_unfold simpleResult_def nextValue_def or_else_def
      split: list.splits)

theorem getSingleResponse_first_or_sentinel_witness:
  \<open>getSingleResponse demoParse
      (always (replied ''{"choices":[{"message":{"content":"Hi there"}}]}''
                 (messageReply (JStr ''Hi there''))))
      (Inl NetworkError) ''http://localhost:5173'' (Local demoLocal) hello ''test-model''
     = Inr (JStr ''Hi there'')\<close>
  using getSingleResponse_first_or_sentinel [of demoParse
      \<open>always (replied ''{"choices":[{"message":{"content":"Hi there"}}]}''
                 (messageReply (JStr ''Hi there'')))\<close>
      "Inl NetworkError" "''http://localhost:5173''" "Local demoLocal" hello "''test-model''"]
  by (simp add: streamCompletion_def lm_sendMessage_def
      lm_try_def always_def replied_def ok_def consumeResponse_def optStream_def unstreamed_def
      nonStreaming_def messageReply_def messageContent_def optChain_def or_else_def
      catchYield_def)

subsection \<open>C10: what a frame can yield\<close>

text \<open>
  C10: in streaming mode, on a stream that keeps to the wire format (the content of a
  frame is a text, null, or absent), every fragment yielded is a non-empty string; and a
  frame whose content is absent, null or the empty string gives no fragment, wherever its
  line stands among the lines of a chunk.
\<close>

theorem fragments_nonempty_strings:
  assumes "ready fetchKey cl" and "optStream opts"
    and "answers fetch (completionRequest fetchKey origin cl messages model opts) resp"
    and "bodyStream resp = Some (chunks, ending)"
    and "\<forall>chunk\<in>set chunks. wireChunk parse chunk"
  shows "(\<forall>v\<in>set (yielded (streamCompletion parse fetch fetchKey origin cl messages model opts)).
            nonEmptyString v)
         \<and> (\<forall>p. frameValue parse p \<in> {Some JUndefined, Some JNull, Some (JStr [])}
                \<and> trim p \<noteq> ''[DONE]''
              \<longrightarrow> (\<forall>ls ls'. processLines parse (ls @ frameLine p # ls') = processLines parse (ls @ ls')))"
proof -
  have a: "nonEmptyString (JStr (apologyOf cl))"
    by (cases cl) (simp_all add: apologyOf_def lm_apology_def or_apology_def)
  have "\<forall>v\<in>set (fst (catchYield (apologyOf cl) (readLoop parse chunks ending))). nonEmptyString v"
    using readLoop_wire [OF assms(5), of ending] a
    by (auto simp: catchYield_def split: option.splits)
  then have one: "\<forall>v\<in>set (yielded (streamCompletion parse fetch fetchKey origin cl messages model opts)).
      nonEmptyString v"
    using streamCompletion_answered [where parse = parse, OF assms(1,3)]
          streaming_body [OF assms(4,2), of parse]
    by simp
  have two: "processLines parse (ls @ frameLine p # ls') = processLines parse (ls @ ls')"
    if "frameValue parse p \<in> {Some JUndefined, Some JNull, Some (JStr [])}
        \<and> trim p \<noteq> ''[DONE]''" for p ls ls'
    using processLines_cong_tail [OF silent_frame [of parse p ls']] that by simp
  show ?thesis
    using one two by simp
qed

theorem fragments_nonempty_strings_witness:
  "wireChunk demoParse (frameChunk [hiFrame, emptyFrame])
   \<and> wireChunk demoParse (frameChunk [thereFrame])
   \<and> yielded (streamCompletion demoParse
        (always (streamed [frameChunk [hiFrame, emptyFrame], frameChunk [thereFrame]] None))
        (Inl NetworkError) ''http://localhost:5173'' (Local demoLocal) hello ''test-model'' defaults)
      = [JStr ''Hi'', JStr '' there'']
   \<and> nonEmptyString (JStr ''Hi'') \<and> nonEmptyString (JStr '' there'')
   \<and> processLines demoParse [frameLine hiFrame, frameLine emptyFrame, frameLine thereFrame]
      = processLines demoParse [frameLine hiFrame, frameLine thereFrame]"
proof -
  let ?resp = "streamed [frameChunk [hiFrame, emptyFrame], frameChunk [thereFrame]] None"
  let ?fss = "[[(hiFrame, Some ''Hi''), (emptyFrame, Some [])], [(thereFrame, Some '' there'')]]"
  have t: "\<forall>f\<in>set (concat ?fss). taggedFrame demoParse f"
    using hi_tagged there_tagged empty_tagged by simp
  have t1: "\<forall>f\<in>set [(hiFrame, Some ''Hi''), (emptyFrame, Some [])]. taggedFrame demoParse f"
    and t2: "\<forall>f\<in>set [(thereFrame, Some '' there'')]. taggedFrame demoParse f"
    using t by simp_all
  have w1: "wireChunk demoParse (frameChunk [hiFrame, emptyFrame])"
    using frameChunk_wire [OF t1] by simp
  have w2: "wireChunk demoParse (frameChunk [thereFrame])"
    using frameChunk_wire [OF t2] by simp
  have w: "\<forall>chunk\<in>set [frameChunk [hiFrame, emptyFrame], frameChunk [thereFrame]].
             wireChunk demoParse chunk"
    using w1 w2 by simp
  have r: "readLoop demoParse [frameChunk [hiFrame, emptyFrame], frameChunk [thereFrame]] None
             = ([JStr ''Hi'', JStr '' there''], None)"
    using whole_stream [OF t] by (simp add: texts_def List.map_filter_def)
  have y: "yielded (streamCompletion demoParse (always ?resp)
        (Inl NetworkError) ''http://localhost:5173'' (Local demoLocal) hello ''test-model'' defaults)
      = [JStr ''Hi'', JStr '' there'']"
    by (simp add: streamCompletion_def lm_sendMessage_streamed r catchYield_simps
        del: readLoop.simps)
  have e: "frameValue demoParse emptyFrame \<in> {Some JUndefined, Some JNull, Some (JStr [])}
           \<and> trim emptyFrame \<noteq> ''[DONE]''"
    using emptyFrame_value by simp
  have inst: "(\<forall>v\<in>set [JStr ''Hi'', JStr '' there'']. nonEmptyString v)
         \<and> (\<forall>p. frameValue demoParse p \<in> {Some JUndefined, Some JNull, Some (JStr [])}
                \<and> trim p \<noteq> ''[DONE]''
              \<longrightarrow> (\<forall>ls ls'. processLines demoParse (ls @ frameLine p # ls')
                      = processLines demoParse (ls @ ls')))"
    using fragments_nonempty_strings [where parse = demoParse and fetch = "always ?resp"
        and fetchKey = "Inl NetworkError" and cl = "Local demoLocal"
        and origin = "''http://localhost:5173''" and messages = hello and model = "''test-model''",
        OF ready_local optStream_defaults answers_streamed bodyStream_streamed w]
    unfolding y .
  have skip: "processLines demoParse ([frameLine hiFrame] @ frameLine emptyFrame # [frameLine thereFrame])
      = processLines demoParse ([frameLine hiFrame] @ [frameLine thereFrame])"
    using inst e by blast
  have ne: "nonEmptyString (JStr ''Hi'') \<and> nonEmptyString (JStr '' there'')"
    using inst by simp
  show ?thesis
    using w1 w2 y ne skip by (simp del: processLines.simps)
qed

end
